theory Spec2Isabelle
  imports Main
begin

section \<open>Data model\<close>

text \<open>
  The ledger of \<^verbatim>\<open>src/models/database.py\<close>. Timestamps (\<^verbatim>\<open>datetime\<close>) are
  integers counting seconds; quantities and versions are Python/SQL integers, modelled
  as \<open>int\<close>.
\<close>

datatype ReservationStatus = PENDING | CONFIRMED | CONSUMED | CANCELLED | EXPIRED

text \<open>
  A row of table \<^verbatim>\<open>inventory\<close>. The table has a unique index on
  \<^verbatim>\<open>(product_id, store_id)\<close>, so the table is a map from that pair to the rest of
  the row.
\<close>

record InventoryDB =
  inv_id :: string
  available_quantity :: int
  reserved_quantity :: int
  total_quantity :: int
  version :: int
  last_updated :: int

text \<open>A row of table \<^verbatim>\<open>reservations\<close>, keyed by its primary key \<^verbatim>\<open>id\<close>.\<close>

record ReservationDB =
  order_id :: string
  product_id :: string
  store_id :: string
  quantity :: int
  status :: ReservationStatus
  expires_at :: int
  created_at :: int
  confirmed_at :: "int option"
  cancelled_at :: "int option"

text \<open>The request and response models of \<^verbatim>\<open>src/models/inventory.py\<close>.\<close>

record ReservationRequest =
  req_order_id :: string
  req_product_id :: string
  req_store_id :: string
  req_quantity :: int
  ttl_minutes :: int

record ReservationResponse =
  reservation_id :: string
  resp_status :: ReservationStatus
  resp_expires_at :: int
  message :: string

record StockUpdate =
  su_product_id :: string
  su_store_id :: string
  quantity_change :: int
  reason :: string
  reference_id :: "string option"

text \<open>
  \<^verbatim>\<open>ReservationRequest\<close> is a pydantic model: an object of the class exists only
  with \<^verbatim>\<open>quantity > 0\<close> and \<^verbatim>\<open>1 <= ttl_minutes <= 60\<close>.
\<close>

definition ReservationRequest_valid :: "ReservationRequest \<Rightarrow> bool" where
  "ReservationRequest_valid request \<longleftrightarrow>
     0 < req_quantity request \<and> 1 \<le> ttl_minutes request \<and> ttl_minutes request \<le> 60"

text \<open>
  The pydantic model \<^verbatim>\<open>Inventory\<close> that \<^verbatim>\<open>get_inventory\<close> builds from a row. Its
  constraints on the three counters: each is \<^verbatim>\<open>ge=0\<close>, and the validator
  \<^verbatim>\<open>validate_total_quantity\<close> demands \<^verbatim>\<open>total == available + reserved\<close>.
\<close>

definition counters_valid :: "InventoryDB \<Rightarrow> bool" where
  "counters_valid r \<longleftrightarrow>
     0 \<le> available_quantity r \<and> 0 \<le> reserved_quantity r \<and> 0 \<le> total_quantity r
     \<and> total_quantity r = available_quantity r + reserved_quantity r"

text \<open>The whole model: the counters, and \<^verbatim>\<open>version\<close> is \<^verbatim>\<open>ge=1\<close>.\<close>

definition Inventory_valid :: "InventoryDB \<Rightarrow> bool" where
  "Inventory_valid r \<longleftrightarrow> counters_valid r \<and> 1 \<le> version r"

subsection \<open>Events\<close>

datatype pyval = PStr string | PInt int | PNone

text \<open>\<^verbatim>\<open>EventMessage.to_dict()\<close> of \<^verbatim>\<open>src/interfaces/event_bus.py\<close>.\<close>

record EventMessage =
  event_type :: string
  payload :: "(string \<times> pyval) list"
  timestamp :: int
  source :: string
  msg_version :: string

subsection \<open>Exceptions\<close>

text \<open>
  The names that \<^verbatim>\<open>src/exceptions.py\<close> imports from \<^verbatim>\<open>src.constants\<close>. The error
  types and error codes are kept as the names of the constants.
\<close>

datatype error_type =
  BUSINESS_ERROR | VALIDATION_ERROR | NOT_FOUND_ERROR | CONFLICT_ERROR | SERVER_ERROR
  | EXTERNAL_SERVICE_ERROR

datatype error_code =
  INSUFFICIENT_STOCK | INVENTORY_NOT_FOUND | PRODUCT_NOT_FOUND | STORE_NOT_FOUND
  | RESERVATION_NOT_FOUND | RESERVATION_EXPIRED | RESERVATION_ALREADY_CONFIRMED
  | OPTIMISTIC_LOCK_CONFLICT | DISTRIBUTED_LOCK_FAILED | INVALID_RESERVATION_STATUS

text \<open>
  Modelled from the spec: the HTTP status constants \<^verbatim>\<open>RESP_*\<close> of the module
  \<^verbatim>\<open>src/constants.py\<close>, which is not among the sources. The error taxonomy of
  the specification gives business errors 400, validation errors 422, not-found 404,
  conflicts 409, external-service errors 503 and server errors 500.
\<close>

definition RESP_BAD_REQUEST :: nat where "RESP_BAD_REQUEST = 400"
definition RESP_UNPROCESSABLE_ENTITY :: nat where "RESP_UNPROCESSABLE_ENTITY = 422"
definition RESP_NOT_FOUND :: nat where "RESP_NOT_FOUND = 404"
definition RESP_CONFLICT :: nat where "RESP_CONFLICT = 409"
definition RESP_INTERNAL_SERVER_ERROR :: nat where "RESP_INTERNAL_SERVER_ERROR = 500"
definition RESP_SERVICE_UNAVAILABLE :: nat where "RESP_SERVICE_UNAVAILABLE = 503"

text \<open>
  Every exception the engine raises. The first seven are subclasses of
  \<^verbatim>\<open>InventoryServiceBaseException\<close>; \<open>PyException\<close> is a bare
  \<^verbatim>\<open>raise Exception("...")\<close>; \<open>AttributeError\<close> is the lookup of a method the class
  does not have; \<open>PydanticValidationError\<close> is raised by the constructor of
  \<^verbatim>\<open>Inventory\<close>; \<open>IntegrityError\<close> is a primary-key collision at flush;
  \<open>BusError\<close> is whatever the broker client raises from \<^verbatim>\<open>publish\<close>.
\<close>

datatype exn =
    InsufficientStockError int int
  | InventoryNotFoundError string string
  | ReservationNotFoundError string
  | ReservationExpiredError string
  | OptimisticLockConflictError string
  | DistributedLockFailedError string
  | InvalidReservationStatusError string ReservationStatus ReservationStatus
  | PyException string
  | AttributeError string
  | PydanticValidationError
  | IntegrityError
  | BusError

text \<open>
  The base class each exception class derives from, named by the \<^verbatim>\<open>error_type\<close> its
  constructor passes on; \<open>None\<close> for an exception outside the hierarchy.
\<close>

fun exn_error_type :: "exn \<Rightarrow> error_type option" where
  "exn_error_type (InsufficientStockError a r) = Some BUSINESS_ERROR"
| "exn_error_type (InventoryNotFoundError p s) = Some NOT_FOUND_ERROR"
| "exn_error_type (ReservationNotFoundError r) = Some NOT_FOUND_ERROR"
| "exn_error_type (ReservationExpiredError r) = Some CONFLICT_ERROR"
| "exn_error_type (OptimisticLockConflictError r) = Some CONFLICT_ERROR"
| "exn_error_type (DistributedLockFailedError k) = Some EXTERNAL_SERVICE_ERROR"
| "exn_error_type (InvalidReservationStatusError r c x) = Some BUSINESS_ERROR"
| "exn_error_type _ = None"

fun exn_error_code :: "exn \<Rightarrow> error_code option" where
  "exn_error_code (InsufficientStockError a r) = Some INSUFFICIENT_STOCK"
| "exn_error_code (InventoryNotFoundError p s) = Some INVENTORY_NOT_FOUND"
| "exn_error_code (ReservationNotFoundError r) = Some RESERVATION_NOT_FOUND"
| "exn_error_code (ReservationExpiredError r) = Some RESERVATION_EXPIRED"
| "exn_error_code (OptimisticLockConflictError r) = Some OPTIMISTIC_LOCK_CONFLICT"
| "exn_error_code (DistributedLockFailedError k) = Some DISTRIBUTED_LOCK_FAILED"
| "exn_error_code (InvalidReservationStatusError r c x) = Some INVALID_RESERVATION_STATUS"
| "exn_error_code _ = None"

text \<open>The \<^verbatim>\<open>status_code\<close> each base class fixes in its constructor.\<close>

fun base_status_code :: "error_type \<Rightarrow> nat" where
  "base_status_code BUSINESS_ERROR = RESP_BAD_REQUEST"
| "base_status_code VALIDATION_ERROR = RESP_UNPROCESSABLE_ENTITY"
| "base_status_code NOT_FOUND_ERROR = RESP_NOT_FOUND"
| "base_status_code CONFLICT_ERROR = RESP_CONFLICT"
| "base_status_code SERVER_ERROR = RESP_INTERNAL_SERVER_ERROR"
| "base_status_code EXTERNAL_SERVICE_ERROR = RESP_SERVICE_UNAVAILABLE"

definition status_code :: "exn \<Rightarrow> nat option" where
  "status_code ex = map_option base_status_code (exn_error_type ex)"

text \<open>
  \<^verbatim>\<open>handle_service_exception\<close> of \<^verbatim>\<open>src/utils/error_utils.py\<close>; the result is the
  status code of the \<^verbatim>\<open>HTTPException\<close> it builds.
\<close>

definition handle_service_exception :: "exn \<Rightarrow> nat" where
  "handle_service_exception ex =
     (case status_code ex of
        Some c \<Rightarrow> c
      | None \<Rightarrow> RESP_INTERNAL_SERVER_ERROR)"

section \<open>The collaborators\<close>

text \<open>
  The state the engine works on: the two tables as committed, the keys held in the lock
  service and the messages delivered to the broker, each with its topic.
\<close>

record world =
  inventory :: "string \<times> string \<rightharpoonup> InventoryDB"
  reservations :: "string \<rightharpoonup> ReservationDB"
  locks :: "string set"
  bus :: "(string \<times> EventMessage) list"

text \<open>
  What a call finds outside the ledger: the clock (\<^verbatim>\<open>datetime.utcnow()\<close>), whether
  the lock service answers, whether the broker accepts a message, the \<^verbatim>\<open>uuid4\<close>
  drawn for a new reservation row, and the clock of the database (\<^verbatim>\<open>func.now()\<close>,
  the \<^verbatim>\<open>server_default\<close> of \<^verbatim>\<open>created_at\<close>).
\<close>

record env =
  now :: int
  redis_up :: bool
  bus_up :: bool
  new_uuid :: string
  db_now :: int

definition timedelta_minutes :: "int \<Rightarrow> int" where
  "timedelta_minutes m = 60 * m"

text \<open>\<^verbatim>\<open>RedisLockManager\<close>: \<^verbatim>\<open>SET key "locked" NX EX ttl\<close> and \<^verbatim>\<open>DEL key\<close>; both
  swallow the failure of the server.\<close>

definition acquire_lock :: "env \<Rightarrow> string \<Rightarrow> string set \<Rightarrow> bool \<times> string set" where
  "acquire_lock e key held =
     (if \<not> redis_up e then (False, held)
      else if key \<in> held then (False, held)
      else (True, insert key held))"

definition release_lock :: "env \<Rightarrow> string \<Rightarrow> string set \<Rightarrow> string set" where
  "release_lock e key held = (if redis_up e then held - {key} else held)"

definition lock_key_of :: "string \<Rightarrow> string \<Rightarrow> string" where
  "lock_key_of pid sid = ''inventory_lock:'' @ pid @ '':'' @ sid"

text \<open>
  \<^verbatim>\<open>EventService.publish_event\<close>: builds the envelope and hands it to the broker on
  topic \<^verbatim>\<open>inventory_events\<close>; a failure is logged and raised again.
\<close>

definition publish_event ::
  "env \<Rightarrow> string \<Rightarrow> (string \<times> pyval) list \<Rightarrow> (string \<times> EventMessage) list
     \<Rightarrow> exn + (string \<times> EventMessage) list" where
  "publish_event e ty pl delivered =
     (if bus_up e
      then Inr (delivered @
             [(''inventory_events'',
               \<lparr>event_type = ty, payload = pl, timestamp = now e,
                source = ''inventory_service'', msg_version = ''1.0''\<rparr>)])
      else Inl BusError)"

section \<open>The ledger statements\<close>

text \<open>
  \<^verbatim>\<open>update(InventoryDB).where(product_id == pid, store_id == sid, extra).values(vals)\<close>:
  the new table and \<^verbatim>\<open>rowcount\<close>.
\<close>

definition execute_update_inventory ::
  "string \<Rightarrow> string \<Rightarrow> (InventoryDB \<Rightarrow> bool) \<Rightarrow> (InventoryDB \<Rightarrow> InventoryDB) \<Rightarrow> world
     \<Rightarrow> world \<times> nat" where
  "execute_update_inventory pid sid extra vals w =
     (case inventory w (pid, sid) of
        None \<Rightarrow> (w, 0)
      | Some row \<Rightarrow>
          if extra row
          then (w\<lparr>inventory := (inventory w)((pid, sid) \<mapsto> vals row)\<rparr>, 1)
          else (w, 0))"

text \<open>\<^verbatim>\<open>update(ReservationDB).where(id == rid).values(vals)\<close>.\<close>

definition execute_update_reservation ::
  "string \<Rightarrow> (ReservationDB \<Rightarrow> ReservationDB) \<Rightarrow> world \<Rightarrow> world" where
  "execute_update_reservation rid vals w =
     (case reservations w rid of
        None \<Rightarrow> w
      | Some r \<Rightarrow> w\<lparr>reservations := (reservations w)(rid \<mapsto> vals r)\<rparr>)"

text \<open>
  Leaving a session without \<^verbatim>\<open>commit\<close> (\<^verbatim>\<open>rollback()\<close>, or the close of the session
  by \<^verbatim>\<open>get_db\<close>) drops what the session wrote: the tables are again those of the
  start, \<open>w0\<close>; locks and delivered messages are outside the transaction.
\<close>

definition rollback :: "world \<Rightarrow> world \<Rightarrow> world" where
  "rollback w0 w = w\<lparr>inventory := inventory w0, reservations := reservations w0\<rparr>"

text \<open>The \<^verbatim>\<open>.values(...)\<close> of the five inventory updates, at time \<open>t\<close>.\<close>

definition reserve_values :: "int \<Rightarrow> int \<Rightarrow> InventoryDB \<Rightarrow> InventoryDB" where
  "reserve_values q t r =
     r\<lparr>available_quantity := available_quantity r - q,
       reserved_quantity := reserved_quantity r + q,
       version := version r + 1,
       last_updated := t\<rparr>"

definition consume_values :: "int \<Rightarrow> int \<Rightarrow> InventoryDB \<Rightarrow> InventoryDB" where
  "consume_values q t r =
     r\<lparr>reserved_quantity := reserved_quantity r - q,
       total_quantity := total_quantity r - q,
       version := version r + 1,
       last_updated := t\<rparr>"

definition cancel_values :: "int \<Rightarrow> int \<Rightarrow> InventoryDB \<Rightarrow> InventoryDB" where
  "cancel_values q t r =
     r\<lparr>available_quantity := available_quantity r + q,
       reserved_quantity := reserved_quantity r - q,
       version := version r + 1,
       last_updated := t\<rparr>"

definition expire_values :: "int \<Rightarrow> int \<Rightarrow> InventoryDB \<Rightarrow> InventoryDB" where
  "expire_values q t r =
     r\<lparr>available_quantity := available_quantity r + q,
       reserved_quantity := reserved_quantity r - q,
       last_updated := t\<rparr>"

definition stock_values :: "int \<Rightarrow> int \<Rightarrow> int \<Rightarrow> InventoryDB \<Rightarrow> InventoryDB" where
  "stock_values new_available d t r =
     r\<lparr>available_quantity := new_available,
       total_quantity := total_quantity r + d,
       version := version r + 1,
       last_updated := t\<rparr>"

text \<open>
  \<^verbatim>\<open>InventoryService.get_inventory\<close>: the row of the pair, turned into the pydantic
  model \<^verbatim>\<open>Inventory\<close>, whose constructor validates it.
\<close>

definition get_inventory :: "world \<Rightarrow> string \<Rightarrow> string \<Rightarrow> exn + InventoryDB option" where
  "get_inventory w pid sid =
     (case inventory w (pid, sid) of
        None \<Rightarrow> Inr None
      | Some row \<Rightarrow> if Inventory_valid row then Inr (Some row) else Inl PydanticValidationError)"

section \<open>The reservation engine\<close>

text \<open>
  The methods of \<^verbatim>\<open>InventoryService\<close>. Each takes the committed state and returns what
  the caller sees (\<open>Inl\<close> the exception raised, \<open>Inr\<close> the value returned) with the
  state as committed afterwards. All calls of \<^verbatim>\<open>datetime.utcnow()\<close> within one
  method read the same instant \<open>now e\<close>; logging has no effect on the state.
\<close>

subsection \<open>Reserve\<close>

text \<open>
  \<^verbatim>\<open>self.db.add(reservation_db)\<close>: the row is inserted at the flush that precedes the
  next statement, with the column defaults: a fresh \<^verbatim>\<open>uuid4\<close> as \<^verbatim>\<open>id\<close>, and
  \<^verbatim>\<open>created_at\<close> filled by the database from its own clock.
\<close>

definition add_reservation :: "env \<Rightarrow> ReservationRequest \<Rightarrow> int \<Rightarrow> world \<Rightarrow> exn + world" where
  "add_reservation e request exp w =
     (if reservations w (new_uuid e) \<noteq> None then Inl IntegrityError
      else Inr (w\<lparr>reservations := (reservations w)(new_uuid e \<mapsto>
             \<lparr>order_id = req_order_id request,
              product_id = req_product_id request,
              store_id = req_store_id request,
              quantity = req_quantity request,
              status = PENDING,
              expires_at = exp,
              created_at = db_now e,
              confirmed_at = None,
              cancelled_at = None\<rparr>)\<rparr>))"

text \<open>
  The body of the \<^verbatim>\<open>try\<close> of \<^verbatim>\<open>reserve_stock\<close> after the lock is held; \<open>w\<close> is
  the state at that point, to which the \<^verbatim>\<open>except\<close> clause rolls back. The event is
  published before \<^verbatim>\<open>commit\<close>. The payload carries \<^verbatim>\<open>expires_at\<close> as the
  timestamp itself rather than its ISO rendering.
\<close>

definition reserve_stock_locked ::
  "env \<Rightarrow> ReservationRequest \<Rightarrow> world \<Rightarrow> (exn + ReservationResponse) \<times> world" where
  "reserve_stock_locked e request w =
     (case get_inventory w (req_product_id request) (req_store_id request) of
        Inl ex \<Rightarrow> (Inl ex, w)
      | Inr None \<Rightarrow>
          (Inl (InventoryNotFoundError (req_product_id request) (req_store_id request)), w)
      | Inr (Some snapshot) \<Rightarrow>
          if available_quantity snapshot < req_quantity request
          then (Inl (InsufficientStockError (available_quantity snapshot) (req_quantity request)), w)
          else
            let exp = now e + timedelta_minutes (ttl_minutes request) in
            (case add_reservation e request exp w of
               Inl ex \<Rightarrow> (Inl ex, w)
             | Inr w1 \<Rightarrow>
                 (case execute_update_inventory (req_product_id request) (req_store_id request)
                         (\<lambda>r. version r = version snapshot)
                         (reserve_values (req_quantity request) (now e)) w1 of
                    (w2, rowcount) \<Rightarrow>
                      if rowcount = 0
                      then (Inl (OptimisticLockConflictError
                                  (''inventory:'' @ req_product_id request @ '':''
                                     @ req_store_id request)), w)
                      else
                        (case publish_event e ''reservation_created''
                                [(''reservation_id'', PStr (new_uuid e)),
                                 (''order_id'', PStr (req_order_id request)),
                                 (''product_id'', PStr (req_product_id request)),
                                 (''store_id'', PStr (req_store_id request)),
                                 (''quantity'', PInt (req_quantity request)),
                                 (''expires_at'', PInt exp)] (bus w2) of
                           Inl ex \<Rightarrow> (Inl ex, w)
                         | Inr delivered \<Rightarrow>
                             (Inr \<lparr>reservation_id = new_uuid e, resp_status = PENDING,
                                   resp_expires_at = exp,
                                   message = ''Stock reserved successfully''\<rparr>,
                              w2\<lparr>bus := delivered\<rparr>)))))"

text \<open>
  \<^verbatim>\<open>reserve_stock\<close>: the lock is taken first and released in \<^verbatim>\<open>finally\<close>, whether
  or not it was acquired.
\<close>

definition reserve_stock ::
  "env \<Rightarrow> ReservationRequest \<Rightarrow> world \<Rightarrow> (exn + ReservationResponse) \<times> world" where
  "reserve_stock e request w =
     (let lock_key = lock_key_of (req_product_id request) (req_store_id request) in
      case acquire_lock e lock_key (locks w) of
        (acquired, held) \<Rightarrow>
          (case (if \<not> acquired
                 then (Inl (DistributedLockFailedError lock_key), w\<lparr>locks := held\<rparr>)
                 else reserve_stock_locked e request (w\<lparr>locks := held\<rparr>)) of
             (res, w') \<Rightarrow> (res, w'\<lparr>locks := release_lock e lock_key (locks w')\<rparr>)))"

subsection \<open>Expire\<close>

text \<open>
  \<^verbatim>\<open>_expire_reservation\<close>, on the tables of the open session; it does not commit. After
  the two updates it calls \<^verbatim>\<open>self._publish_event\<close>, a method \<^verbatim>\<open>InventoryService\<close>
  does not define, which raises \<^verbatim>\<open>AttributeError\<close>.
\<close>

definition expire_reservation :: "env \<Rightarrow> string \<Rightarrow> world \<Rightarrow> (exn + unit) \<times> world" where
  "expire_reservation e rid w =
     (case reservations w rid of
        None \<Rightarrow> (Inr (), w)
      | Some reservation \<Rightarrow>
          if status reservation \<noteq> PENDING then (Inr (), w)
          else
            (case execute_update_inventory (product_id reservation) (store_id reservation)
                    (\<lambda>r. True) (expire_values (quantity reservation) (now e)) w of
               (w1, rowcount) \<Rightarrow>
                 (Inl (AttributeError ''_publish_event''),
                  execute_update_reservation rid (\<lambda>r. r\<lparr>status := EXPIRED\<rparr>) w1)))"

subsection \<open>Confirm\<close>

text \<open>
  \<^verbatim>\<open>confirm_reservation\<close> has no \<^verbatim>\<open>try\<close>: an exception leaves the session
  uncommitted, and the session is closed by its owner.
\<close>

definition confirm_reservation :: "env \<Rightarrow> string \<Rightarrow> world \<Rightarrow> (exn + bool) \<times> world" where
  "confirm_reservation e rid w =
     (case reservations w rid of
        None \<Rightarrow> (Inl (ReservationNotFoundError rid), w)
      | Some reservation \<Rightarrow>
          if status reservation \<noteq> PENDING
          then (Inl (InvalidReservationStatusError rid (status reservation) PENDING), w)
          else if expires_at reservation < now e
          then (case expire_reservation e rid w of
                  (Inl ex, w1) \<Rightarrow> (Inl ex, rollback w w1)
                | (Inr u, w1) \<Rightarrow> (Inl (ReservationExpiredError rid), rollback w w1))
          else
            let w1 = execute_update_reservation rid
                       (\<lambda>r. r\<lparr>status := CONFIRMED, confirmed_at := Some (now e)\<rparr>) w in
            (case publish_event e ''reservation_confirmed''
                    [(''reservation_id'', PStr rid),
                     (''order_id'', PStr (order_id reservation)),
                     (''product_id'', PStr (product_id reservation)),
                     (''store_id'', PStr (store_id reservation)),
                     (''quantity'', PInt (quantity reservation))] (bus w1) of
               Inl ex \<Rightarrow> (Inl ex, w)
             | Inr delivered \<Rightarrow> (Inr True, w1\<lparr>bus := delivered\<rparr>)))"

subsection \<open>Consume\<close>

text \<open>
  \<^verbatim>\<open>consume_reservation\<close>: no lock is taken; the inventory row is read directly (no
  pydantic model), and the update is guarded by the version read.
\<close>

definition consume_reservation :: "env \<Rightarrow> string \<Rightarrow> world \<Rightarrow> (exn + bool) \<times> world" where
  "consume_reservation e rid w =
     (case reservations w rid of
        None \<Rightarrow> (Inl (PyException ''Reservation not found''), w)
      | Some reservation \<Rightarrow>
          if status reservation \<noteq> CONFIRMED
          then (Inl (PyException ''Reservation must be confirmed before consumption''), w)
          else
            (case inventory w (product_id reservation, store_id reservation) of
               None \<Rightarrow> (Inl (PyException ''Inventory not found''), w)
             | Some snapshot \<Rightarrow>
                 (case execute_update_inventory (product_id reservation) (store_id reservation)
                         (\<lambda>r. version r = version snapshot)
                         (consume_values (quantity reservation) (now e)) w of
                    (w1, rowcount) \<Rightarrow>
                      if rowcount = 0
                      then (Inl (PyException
                        ''Optimistic lock conflict - inventory was modified by another operation''),
                            w)
                      else
                        let w2 = execute_update_reservation rid (\<lambda>r. r\<lparr>status := CONSUMED\<rparr>) w1 in
                        (case publish_event e ''reservation_consumed''
                                [(''reservation_id'', PStr rid),
                                 (''order_id'', PStr (order_id reservation)),
                                 (''product_id'', PStr (product_id reservation)),
                                 (''store_id'', PStr (store_id reservation)),
                                 (''quantity'', PInt (quantity reservation))] (bus w2) of
                           Inl ex \<Rightarrow> (Inl ex, w)
                         | Inr delivered \<Rightarrow> (Inr True, w2\<lparr>bus := delivered\<rparr>)))))"

subsection \<open>Cancel\<close>

text \<open>
  The body of the \<^verbatim>\<open>try\<close> of \<^verbatim>\<open>cancel_reservation\<close> after the lock is held:
  \<open>reservation\<close> is the object the \<^verbatim>\<open>select\<close> at the head of the method returned,
  \<open>w\<close> the state found once the lock has been awaited. The status tested here is that of
  the same object, which is not read again. The inventory update has no version predicate
  and its \<^verbatim>\<open>rowcount\<close> is not read; the reservation update has no status predicate.
\<close>

definition cancel_reservation_locked ::
  "env \<Rightarrow> string \<Rightarrow> ReservationDB \<Rightarrow> world \<Rightarrow> (exn + bool) \<times> world" where
  "cancel_reservation_locked e rid reservation w =
     (let w1 = (if status reservation \<in> {PENDING, CONFIRMED}
                then fst (execute_update_inventory (product_id reservation)
                            (store_id reservation) (\<lambda>r. True)
                            (cancel_values (quantity reservation) (now e)) w)
                else w);
          w2 = execute_update_reservation rid
                 (\<lambda>r. r\<lparr>status := CANCELLED, cancelled_at := Some (now e)\<rparr>) w1
      in case publish_event e ''reservation_cancelled''
                [(''reservation_id'', PStr rid),
                 (''order_id'', PStr (order_id reservation)),
                 (''product_id'', PStr (product_id reservation)),
                 (''store_id'', PStr (store_id reservation)),
                 (''quantity'', PInt (quantity reservation))] (bus w2) of
           Inl ex \<Rightarrow> (Inl ex, w)
         | Inr delivered \<Rightarrow> (Inr True, w2\<lparr>bus := delivered\<rparr>))"

definition cancel_reservation :: "env \<Rightarrow> string \<Rightarrow> world \<Rightarrow> (exn + bool) \<times> world" where
  "cancel_reservation e rid w =
     (case reservations w rid of
        None \<Rightarrow> (Inl (PyException ''Reservation not found''), w)
      | Some reservation \<Rightarrow>
          if status reservation \<notin> {PENDING, CONFIRMED}
          then (Inl (PyException ''Reservation cannot be cancelled''), w)
          else
            let lock_key = lock_key_of (product_id reservation) (store_id reservation) in
            (case acquire_lock e lock_key (locks w) of
               (acquired, held) \<Rightarrow>
                 (case (if \<not> acquired
                        then (Inl (PyException ''Could not acquire inventory lock''),
                              w\<lparr>locks := held\<rparr>)
                        else cancel_reservation_locked e rid reservation (w\<lparr>locks := held\<rparr>)) of
                    (res, w') \<Rightarrow> (res, w'\<lparr>locks := release_lock e lock_key (locks w')\<rparr>))))"

subsection \<open>UpdateStock\<close>

text \<open>
  \<^verbatim>\<open>update_stock\<close> from the computation of \<^verbatim>\<open>new_available\<close> on: \<open>snapshot\<close> is the
  \<^verbatim>\<open>Inventory\<close> that \<^verbatim>\<open>get_inventory\<close> returned, \<open>w\<close> the state the conditional
  update finds. Between the two lies an \<^verbatim>\<open>await\<close>, at which other requests run.
\<close>

definition update_stock_write ::
  "env \<Rightarrow> StockUpdate \<Rightarrow> InventoryDB \<Rightarrow> world \<Rightarrow> (exn + bool) \<times> world" where
  "update_stock_write e stock_update snapshot w =
     (let new_available = available_quantity snapshot + quantity_change stock_update in
      if new_available < 0 then (Inl (PyException ''Stock cannot go below zero''), w)
      else
        (case execute_update_inventory (su_product_id stock_update)
                (su_store_id stock_update)
                (\<lambda>r. version r = version snapshot)
                (stock_values new_available (quantity_change stock_update) (now e)) w of
           (w1, rowcount) \<Rightarrow>
             if rowcount = 0
             then (Inl (OptimisticLockConflictError
                         (''inventory:'' @ su_product_id stock_update @ '':''
                            @ su_store_id stock_update)), w)
             else
               (case publish_event e ''stock_updated''
                       [(''product_id'', PStr (su_product_id stock_update)),
                        (''store_id'', PStr (su_store_id stock_update)),
                        (''quantity_change'', PInt (quantity_change stock_update)),
                        (''new_available'', PInt new_available),
                        (''reason'', PStr (reason stock_update)),
                        (''reference_id'',
                           (case reference_id stock_update of
                              None \<Rightarrow> PNone | Some x \<Rightarrow> PStr x))] (bus w1) of
                  Inl ex \<Rightarrow> (Inl ex, w)
                | Inr delivered \<Rightarrow> (Inr True, w1\<lparr>bus := delivered\<rparr>))))"

text \<open>The body of the \<^verbatim>\<open>try\<close> of \<^verbatim>\<open>update_stock\<close> after the lock is held.\<close>

definition update_stock_locked :: "env \<Rightarrow> StockUpdate \<Rightarrow> world \<Rightarrow> (exn + bool) \<times> world" where
  "update_stock_locked e stock_update w =
     (case get_inventory w (su_product_id stock_update) (su_store_id stock_update) of
        Inl ex \<Rightarrow> (Inl ex, w)
      | Inr None \<Rightarrow> (Inl (PyException ''Inventory not found''), w)
      | Inr (Some snapshot) \<Rightarrow> update_stock_write e stock_update snapshot w)"

definition update_stock :: "env \<Rightarrow> StockUpdate \<Rightarrow> world \<Rightarrow> (exn + bool) \<times> world" where
  "update_stock e stock_update w =
     (let lock_key = lock_key_of (su_product_id stock_update) (su_store_id stock_update) in
      case acquire_lock e lock_key (locks w) of
        (acquired, held) \<Rightarrow>
          (case (if \<not> acquired
                 then (Inl (PyException ''Could not acquire inventory lock''), w\<lparr>locks := held\<rparr>)
                 else update_stock_locked e stock_update (w\<lparr>locks := held\<rparr>)) of
             (res, w') \<Rightarrow> (res, w'\<lparr>locks := release_lock e lock_key (locks w')\<rparr>)))"

section \<open>Concurrent writers and the specified update\<close>

text \<open>
  What another request can commit to an inventory row between the moment
  \<^verbatim>\<open>update_stock\<close> reads its snapshot and the moment its conditional update runs: the
  updates of the four methods that reach \<^verbatim>\<open>commit\<close> after writing the row
  (\<^verbatim>\<open>reserve_stock\<close>, \<^verbatim>\<open>consume_reservation\<close>, \<^verbatim>\<open>cancel_reservation\<close>,
  \<^verbatim>\<open>update_stock\<close>), with any quantity and at any time.
\<close>

inductive committed_write :: "InventoryDB \<Rightarrow> InventoryDB \<Rightarrow> bool" where
  by_reserve: "committed_write r (reserve_values q t r)"
| by_consume: "committed_write r (consume_values q t r)"
| by_cancel: "committed_write r (cancel_values q t r)"
| by_update_stock: "committed_write r (stock_values n d t r)"

text \<open>
  The update of UpdateStock as the specification words it: a conditional update with
  \<open>\<Delta>available = \<Delta>\<close>, \<open>\<Delta>total = \<Delta>\<close>, \<open>\<Delta>reserved = 0\<close>, which on success
  increments \<^verbatim>\<open>version\<close> by 1 and sets \<^verbatim>\<open>last_updated\<close>. Every counter is
  written relative to the row the update finds.
\<close>

definition relative_stock_values :: "int \<Rightarrow> int \<Rightarrow> InventoryDB \<Rightarrow> InventoryDB" where
  "relative_stock_values d t r =
     r\<lparr>available_quantity := available_quantity r + d,
       total_quantity := total_quantity r + d,
       version := version r + 1,
       last_updated := t\<rparr>"

section \<open>Evaluation and row-level facts\<close>

lemmas engine_defs =
  acquire_lock_def release_lock_def get_inventory_def add_reservation_def
  execute_update_inventory_def execute_update_reservation_def publish_event_def rollback_def

lemmas eval_defs = engine_defs lock_key_of_def Inventory_valid_def counters_valid_def
  timedelta_minutes_def reserve_values_def consume_values_def cancel_values_def
  expire_values_def stock_values_def

text \<open>What each method can have done to an inventory row once it has returned.\<close>

lemma reserve_stock_row:
  assumes "inventory w k = Some r"
  shows "inventory (snd (reserve_stock e request w)) k = Some r
       \<or> (k = (req_product_id request, req_store_id request) \<and> Inventory_valid r
            \<and> req_quantity request \<le> available_quantity r
            \<and> inventory (snd (reserve_stock e request w)) k
                = Some (reserve_values (req_quantity request) (now e) r))"
  using assms
  by (auto simp: reserve_stock_def reserve_stock_locked_def engine_defs Let_def
           split: option.splits sum.splits if_splits prod.splits)

lemma confirm_reservation_inventory:
  "inventory (snd (confirm_reservation e rid w)) = inventory w"
  by (auto simp: confirm_reservation_def expire_reservation_def engine_defs Let_def
           split: option.splits sum.splits if_splits prod.splits)

lemma consume_reservation_row:
  assumes "inventory w k = Some r"
  shows "inventory (snd (consume_reservation e rid w)) k = Some r
       \<or> (\<exists>res. reservations w rid = Some res \<and> status res = CONFIRMED
            \<and> k = (product_id res, store_id res)
            \<and> inventory (snd (consume_reservation e rid w)) k
                = Some (consume_values (quantity res) (now e) r))"
  using assms
  by (auto simp: consume_reservation_def engine_defs Let_def
           split: option.splits sum.splits if_splits prod.splits)

lemma cancel_reservation_row:
  assumes "inventory w k = Some r"
  shows "inventory (snd (cancel_reservation e rid w)) k = Some r
       \<or> (\<exists>res. reservations w rid = Some res \<and> status res \<in> {PENDING, CONFIRMED}
            \<and> k = (product_id res, store_id res)
            \<and> inventory (snd (cancel_reservation e rid w)) k
                = Some (cancel_values (quantity res) (now e) r))"
  using assms
  by (auto simp: cancel_reservation_def cancel_reservation_locked_def engine_defs Let_def
           split: option.splits sum.splits if_splits prod.splits)

lemma update_stock_row:
  assumes "inventory w k = Some r"
  shows "inventory (snd (update_stock e su w)) k = Some r
       \<or> (k = (su_product_id su, su_store_id su) \<and> Inventory_valid r
            \<and> 0 \<le> available_quantity r + quantity_change su
            \<and> inventory (snd (update_stock e su w)) k
                = Some (stock_values (available_quantity r + quantity_change su)
                          (quantity_change su) (now e) r))"
  using assms
  by (auto simp: update_stock_def update_stock_locked_def update_stock_write_def engine_defs
           Let_def
           split: option.splits sum.splits if_splits prod.splits)

lemma expire_reservation_row:
  assumes "inventory w k = Some r"
  shows "inventory (snd (expire_reservation e rid w)) k = Some r
       \<or> (\<exists>res. reservations w rid = Some res \<and> status res = PENDING
            \<and> k = (product_id res, store_id res)
            \<and> inventory (snd (expire_reservation e rid w)) k
                = Some (expire_values (quantity res) (now e) r))"
  using assms
  by (auto simp: expire_reservation_def engine_defs Let_def
           split: option.splits sum.splits if_splits prod.splits)

text \<open>
  The same for the part of Cancel that runs under the lock and the part of UpdateStock
  that follows its read, whatever record or snapshot they were handed.
\<close>

lemma cancel_reservation_locked_row:
  assumes "inventory w k = Some r"
  shows "inventory (snd (cancel_reservation_locked e rid res w)) k = Some r
       \<or> inventory (snd (cancel_reservation_locked e rid res w)) k
            = Some (cancel_values (quantity res) (now e) r)"
  using assms
  by (auto simp: cancel_reservation_locked_def engine_defs Let_def
           split: option.splits sum.splits if_splits prod.splits)

lemma update_stock_write_row:
  assumes "inventory w k = Some r"
  shows "inventory (snd (update_stock_write e su snapshot w)) k = Some r
       \<or> (\<exists>n. inventory (snd (update_stock_write e su snapshot w)) k
            = Some (stock_values n (quantity_change su) (now e) r))"
  using assms
  by (auto simp: update_stock_write_def engine_defs Let_def
           split: option.splits sum.splits if_splits prod.splits)

text \<open>The version and the time stamp under the four updates that are committed.\<close>

lemma values_version:
  "version (reserve_values q t r) = version r + 1 \<and> last_updated (reserve_values q t r) = t"
  "version (consume_values q t r) = version r + 1 \<and> last_updated (consume_values q t r) = t"
  "version (cancel_values q t r) = version r + 1 \<and> last_updated (cancel_values q t r) = t"
  "version (stock_values n d t r) = version r + 1 \<and> last_updated (stock_values n d t r) = t"
  by (simp_all add: reserve_values_def consume_values_def cancel_values_def stock_values_def)

text \<open>What a successful Reserve and a successful Cancel have committed.\<close>

lemma reserve_stock_success:
  assumes "reserve_stock e request w = (Inr resp, w1)"
    and "inventory w (req_product_id request, req_store_id request) = Some r"
  shows "reservation_id resp = new_uuid e"
    and "inventory w1 (req_product_id request, req_store_id request)
           = Some (reserve_values (req_quantity request) (now e) r)"
    and "reservations w1 (new_uuid e)
           = Some \<lparr>order_id = req_order_id request,
                   product_id = req_product_id request,
                   store_id = req_store_id request,
                   quantity = req_quantity request,
                   status = PENDING,
                   expires_at = now e + timedelta_minutes (ttl_minutes request),
                   created_at = db_now e,
                   confirmed_at = None,
                   cancelled_at = None\<rparr>"
  using assms
  by (auto simp: reserve_stock_def reserve_stock_locked_def engine_defs Let_def
           split: option.splits sum.splits if_splits prod.splits)

lemma cancel_reservation_success:
  assumes "cancel_reservation e rid w = (Inr True, w')"
    and "reservations w rid = Some res"
    and "inventory w (product_id res, store_id res) = Some r"
  shows "inventory w' (product_id res, store_id res)
           = Some (cancel_values (quantity res) (now e) r)"
  using assms
  by (auto simp: cancel_reservation_def cancel_reservation_locked_def engine_defs Let_def
           split: option.splits sum.splits if_splits prod.splits)

lemma cancel_after_reserve_values:
  "cancel_values q t2 (reserve_values q t1 r) = r\<lparr>version := version r + 2, last_updated := t2\<rparr>"
  by (simp add: cancel_values_def reserve_values_def)

text \<open>The counters under each update.\<close>

lemma reserve_values_valid:
  "counters_valid r \<Longrightarrow> 0 \<le> q \<Longrightarrow> q \<le> available_quantity r
     \<Longrightarrow> counters_valid (reserve_values q t r)"
  by (simp add: counters_valid_def reserve_values_def)

lemma stock_values_valid:
  "counters_valid r \<Longrightarrow> 0 \<le> available_quantity r + d
     \<Longrightarrow> counters_valid (stock_values (available_quantity r + d) d t r)"
  by (simp add: counters_valid_def stock_values_def)

lemma release_values_valid:
  assumes "counters_valid r" and "0 \<le> q" and "q \<le> reserved_quantity r"
  shows "counters_valid (consume_values q t r)"
    and "counters_valid (cancel_values q t r)"
    and "counters_valid (expire_values q t r)"
  using assms
  by (simp_all add: counters_valid_def consume_values_def cancel_values_def expire_values_def)

lemma values_keep_equation:
  assumes "total_quantity r = available_quantity r + reserved_quantity r"
  shows "total_quantity (consume_values q t r)
           = available_quantity (consume_values q t r) + reserved_quantity (consume_values q t r)"
    and "total_quantity (cancel_values q t r)
           = available_quantity (cancel_values q t r) + reserved_quantity (cancel_values q t r)"
    and "total_quantity (expire_values q t r)
           = available_quantity (expire_values q t r) + reserved_quantity (expire_values q t r)"
  using assms
  by (simp_all add: consume_values_def cancel_values_def expire_values_def)

text \<open>A successful UpdateStock has written the row it read.\<close>

lemma update_stock_success:
  assumes "update_stock e su w = (Inr True, w')"
    and "inventory w (su_product_id su, su_store_id su) = Some r"
  shows "Inventory_valid r"
    and "inventory w' (su_product_id su, su_store_id su)
           = Some (stock_values (available_quantity r + quantity_change su)
                     (quantity_change su) (now e) r)"
  using assms
  by (auto simp: update_stock_def update_stock_locked_def update_stock_write_def engine_defs
           Let_def
           split: option.splits sum.splits if_splits prod.splits)

text \<open>Every committed write raises the version, so an unchanged version is an unchanged row.\<close>

lemma committed_write_version:
  "committed_write r r' \<Longrightarrow> version r' = version r + 1"
  by (induction rule: committed_write.induct)
     (simp_all add: reserve_values_def consume_values_def cancel_values_def stock_values_def)

lemma committed_writes_version:
  "committed_write\<^sup>*\<^sup>* r r' \<Longrightarrow> r' = r \<or> version r < version r'"
proof (induction rule: rtranclp_induct)
  case base
  then show ?case by simp
next
  case (step y z)
  then show ?case using committed_write_version [of y z] by auto
qed

section \<open>Publication failure during Reserve\<close>

text \<open>
  Claim C1: when Reserve has acquired the lock, found the inventory, passed the stock check
  and updated the row, a failure of the publisher of \<^verbatim>\<open>reservation_created\<close> should
  leave the commit in place and Reserve should still return success.

  The code publishes before \<^verbatim>\<open>commit\<close>, inside the \<^verbatim>\<open>try\<close>, and
  \<^verbatim>\<open>publish_event\<close> raises the failure again. Evaluated on the inventory
  \<open>(available 5, reserved 0, total 5, version 1)\<close> with a request for 3 units and the
  broker down: the caller gets the broker's exception, the tables are rolled back (no
  reservation row, the inventory row as before) and the lock is released.
\<close>

theorem reserve_stock_publish_failure_rolls_back:
  "reserve_stock \<lparr>now = 100, redis_up = True, bus_up = False, new_uuid = ''R'',
      db_now = 100\<rparr>
     \<lparr>req_order_id = ''ORDER-1'', req_product_id = ''P'', req_store_id = ''S'',
      req_quantity = 3, ttl_minutes = 15\<rparr>
     \<lparr>inventory = [(''P'', ''S'') \<mapsto>
        \<lparr>inv_id = ''I'', available_quantity = 5, reserved_quantity = 0, total_quantity = 5,
         version = 1, last_updated = 0\<rparr>],
      reservations = Map.empty, locks = {}, bus = []\<rparr>
   = (Inl BusError,
     \<lparr>inventory = [(''P'', ''S'') \<mapsto>
        \<lparr>inv_id = ''I'', available_quantity = 5, reserved_quantity = 0, total_quantity = 5,
         version = 1, last_updated = 0\<rparr>],
      reservations = Map.empty, locks = {}, bus = []\<rparr>)"
  by (simp add: reserve_stock_def reserve_stock_locked_def eval_defs)

section \<open>The version column\<close>

text \<open>
  The update of \<^verbatim>\<open>_expire_reservation\<close> is the one inventory update that does not
  touch \<^verbatim>\<open>version\<close>. It runs in a session that no path commits: the method raises
  after its two updates, and its only caller, \<^verbatim>\<open>confirm_reservation\<close>, has no
  \<^verbatim>\<open>commit\<close> on that path. On a PENDING reservation of 2 units and the row
  \<open>(3, 2, 5, version 2)\<close> the session holds \<open>(5, 0, 5, version 2)\<close> when the method
  raises.
\<close>

lemma expire_reservation_session_tables:
  "expire_reservation \<lparr>now = 120, redis_up = True, bus_up = True, new_uuid = ''X'',
      db_now = 120\<rparr> ''R''
     \<lparr>inventory = [(''P'', ''S'') \<mapsto>
        \<lparr>inv_id = ''I'', available_quantity = 3, reserved_quantity = 2, total_quantity = 5,
         version = 2, last_updated = 0\<rparr>],
      reservations = [''R'' \<mapsto>
        \<lparr>order_id = ''ORDER-1'', product_id = ''P'', store_id = ''S'', quantity = 2,
         status = PENDING, expires_at = 60, created_at = 0, confirmed_at = None,
         cancelled_at = None\<rparr>],
      locks = {}, bus = []\<rparr>
   = (Inl (AttributeError ''_publish_event''),
     \<lparr>inventory = [(''P'', ''S'') \<mapsto>
        \<lparr>inv_id = ''I'', available_quantity = 5, reserved_quantity = 0, total_quantity = 5,
         version = 2, last_updated = 120\<rparr>],
      reservations = [''R'' \<mapsto>
        \<lparr>order_id = ''ORDER-1'', product_id = ''P'', store_id = ''S'', quantity = 2,
         status = EXPIRED, expires_at = 60, created_at = 0, confirmed_at = None,
         cancelled_at = None\<rparr>],
      locks = {}, bus = []\<rparr>)"
  by (simp add: expire_reservation_def eval_defs)

text \<open>
  Claim C2: every committed mutation of an inventory row increases \<^verbatim>\<open>version\<close> by
  exactly 1 and sets \<^verbatim>\<open>last_updated\<close>. For a row \<open>r\<close> of the committed state, the
  row that Reserve, Consume, Cancel or UpdateStock leaves committed is either \<open>r\<close>
  itself (nothing was written to it) or has \<^verbatim>\<open>version\<close> one above that of \<open>r\<close> and
  \<^verbatim>\<open>last_updated\<close> at the time of the call; the same holds for the part of Cancel that
  runs under the lock and for the part of UpdateStock after its read, whatever stale
  record or snapshot they hold. Confirm, through which alone Expire is reached, leaves the
  committed row as it was.
\<close>

theorem committed_mutation_bumps_version:
  assumes "inventory w k = Some r"
  shows "(\<forall>r'. inventory (snd (reserve_stock e request w)) k = Some r' \<longrightarrow>
            r' = r \<or> version r' = version r + 1 \<and> last_updated r' = now e)
       \<and> (\<forall>r'. inventory (snd (consume_reservation e rid w)) k = Some r' \<longrightarrow>
            r' = r \<or> version r' = version r + 1 \<and> last_updated r' = now e)
       \<and> (\<forall>r'. inventory (snd (cancel_reservation e rid w)) k = Some r' \<longrightarrow>
            r' = r \<or> version r' = version r + 1 \<and> last_updated r' = now e)
       \<and> (\<forall>r'. inventory (snd (cancel_reservation_locked e rid res w)) k = Some r' \<longrightarrow>
            r' = r \<or> version r' = version r + 1 \<and> last_updated r' = now e)
       \<and> (\<forall>r'. inventory (snd (update_stock e su w)) k = Some r' \<longrightarrow>
            r' = r \<or> version r' = version r + 1 \<and> last_updated r' = now e)
       \<and> (\<forall>r'. inventory (snd (update_stock_write e su snapshot w)) k = Some r' \<longrightarrow>
            r' = r \<or> version r' = version r + 1 \<and> last_updated r' = now e)
       \<and> inventory (snd (confirm_reservation e rid w)) k = Some r"
proof -
  have reserve: "\<forall>r'. inventory (snd (reserve_stock e request w)) k = Some r' \<longrightarrow>
            r' = r \<or> version r' = version r + 1 \<and> last_updated r' = now e"
    using reserve_stock_row [OF assms, of e request] by (auto simp: values_version)
  have consume: "\<forall>r'. inventory (snd (consume_reservation e rid w)) k = Some r' \<longrightarrow>
            r' = r \<or> version r' = version r + 1 \<and> last_updated r' = now e"
    using consume_reservation_row [OF assms, of e rid] by (auto simp: values_version)
  have cancel: "\<forall>r'. inventory (snd (cancel_reservation e rid w)) k = Some r' \<longrightarrow>
            r' = r \<or> version r' = version r + 1 \<and> last_updated r' = now e"
    using cancel_reservation_row [OF assms, of e rid] by (auto simp: values_version)
  have cancel_body: "\<forall>r'. inventory (snd (cancel_reservation_locked e rid res w)) k = Some r' \<longrightarrow>
            r' = r \<or> version r' = version r + 1 \<and> last_updated r' = now e"
    using cancel_reservation_locked_row [OF assms, of e rid res] by (auto simp: values_version)
  have stock: "\<forall>r'. inventory (snd (update_stock e su w)) k = Some r' \<longrightarrow>
            r' = r \<or> version r' = version r + 1 \<and> last_updated r' = now e"
    using update_stock_row [OF assms, of e su] by (auto simp: values_version)
  have stock_body: "\<forall>r'. inventory (snd (update_stock_write e su snapshot w)) k = Some r' \<longrightarrow>
            r' = r \<or> version r' = version r + 1 \<and> last_updated r' = now e"
    using update_stock_write_row [OF assms, of e su snapshot] by (auto simp: values_version)
  have confirm: "inventory (snd (confirm_reservation e rid w)) k = Some r"
    using assms by (simp add: confirm_reservation_inventory)
  from reserve consume cancel cancel_body stock stock_body confirm show ?thesis by blast
qed

text \<open>
  Claim C2, an instance: Reserve of 3 units at time 100 on the row
  \<open>(5, 0, 5, version 1)\<close> commits \<open>(2, 3, 5, version 2)\<close> with \<^verbatim>\<open>last_updated\<close> 100.
\<close>

theorem committed_mutation_bumps_version_witness:
  "inventory
     (snd (reserve_stock \<lparr>now = 100, redis_up = True, bus_up = True, new_uuid = ''R'',
             db_now = 100\<rparr>
        \<lparr>req_order_id = ''ORDER-1'', req_product_id = ''P'', req_store_id = ''S'',
         req_quantity = 3, ttl_minutes = 15\<rparr>
        \<lparr>inventory = [(''P'', ''S'') \<mapsto>
           \<lparr>inv_id = ''I'', available_quantity = 5, reserved_quantity = 0, total_quantity = 5,
            version = 1, last_updated = 0\<rparr>],
         reservations = Map.empty, locks = {}, bus = []\<rparr>))
     (''P'', ''S'')
   = Some \<lparr>inv_id = ''I'', available_quantity = 2, reserved_quantity = 3, total_quantity = 5,
           version = 2, last_updated = 100\<rparr>
   \<and> version \<lparr>inv_id = ''I'', available_quantity = 2, reserved_quantity = 3,
         total_quantity = 5, version = 2, last_updated = 100\<rparr>
       = version \<lparr>inv_id = ''I'', available_quantity = 5, reserved_quantity = 0,
           total_quantity = 5, version = 1, last_updated = 0\<rparr> + 1"
proof -
  let ?e = "\<lparr>now = 100, redis_up = True, bus_up = True, new_uuid = ''R'', db_now = 100\<rparr>"
  let ?rq = "\<lparr>req_order_id = ''ORDER-1'', req_product_id = ''P'', req_store_id = ''S'',
         req_quantity = 3, ttl_minutes = 15\<rparr>"
  let ?r = "\<lparr>inv_id = ''I'', available_quantity = 5, reserved_quantity = 0, total_quantity = 5,
            version = 1, last_updated = 0\<rparr>"
  let ?w = "\<lparr>inventory = [(''P'', ''S'') \<mapsto> ?r],
         reservations = Map.empty, locks = {}, bus = []\<rparr>"
  have h1: "inventory ?w (''P'', ''S'') = Some ?r" by simp
  have row: "inventory (snd (reserve_stock ?e ?rq ?w)) (''P'', ''S'')
     = Some \<lparr>inv_id = ''I'', available_quantity = 2, reserved_quantity = 3, total_quantity = 5,
           version = 2, last_updated = 100\<rparr>"
    by (simp add: reserve_stock_def reserve_stock_locked_def eval_defs)
  from committed_mutation_bumps_version [OF h1, where e = ?e and request = ?rq] row
  show ?thesis by simp
qed

section \<open>The counters of a row\<close>

text \<open>
  Claim C3, as stated, fails: a row with \<open>total = available + reserved\<close> and all three
  counters non-negative need not keep its counters non-negative under Cancel. Cancel
  subtracts the reservation's quantity from \<^verbatim>\<open>reserved_quantity\<close> without comparing
  the two: on the row \<open>(5, 0, 5)\<close> the cancellation of a PENDING reservation of 3
  units commits \<open>(8, -3, 5)\<close>.
\<close>

theorem cancel_overdraws_reserved:
  "counters_valid \<lparr>inv_id = ''I'', available_quantity = 5, reserved_quantity = 0,
                   total_quantity = 5, version = 1, last_updated = 0\<rparr>
   \<and> cancel_reservation \<lparr>now = 200, redis_up = True, bus_up = True, new_uuid = ''X'',
      db_now = 200\<rparr> ''R''
       \<lparr>inventory = [(''P'', ''S'') \<mapsto>
          \<lparr>inv_id = ''I'', available_quantity = 5, reserved_quantity = 0, total_quantity = 5,
           version = 1, last_updated = 0\<rparr>],
        reservations = [''R'' \<mapsto>
          \<lparr>order_id = ''ORDER-1'', product_id = ''P'', store_id = ''S'', quantity = 3,
           status = PENDING, expires_at = 1000, created_at = 100, confirmed_at = None,
           cancelled_at = None\<rparr>],
        locks = {}, bus = []\<rparr>
     = (Inr True,
       \<lparr>inventory = [(''P'', ''S'') \<mapsto>
          \<lparr>inv_id = ''I'', available_quantity = 8, reserved_quantity = - 3, total_quantity = 5,
           version = 2, last_updated = 200\<rparr>],
        reservations = [''R'' \<mapsto>
          \<lparr>order_id = ''ORDER-1'', product_id = ''P'', store_id = ''S'', quantity = 3,
           status = CANCELLED, expires_at = 1000, created_at = 100, confirmed_at = None,
           cancelled_at = Some 200\<rparr>],
        locks = {},
        bus = [(''inventory_events'',
                \<lparr>event_type = ''reservation_cancelled'',
                 payload = [(''reservation_id'', PStr ''R''), (''order_id'', PStr ''ORDER-1''),
                            (''product_id'', PStr ''P''), (''store_id'', PStr ''S''),
                            (''quantity'', PInt 3)],
                 timestamp = 200, source = ''inventory_service'', msg_version = ''1.0''\<rparr>)]\<rparr>)
   \<and> \<not> counters_valid \<lparr>inv_id = ''I'', available_quantity = 8, reserved_quantity = - 3,
                   total_quantity = 5, version = 2, last_updated = 200\<rparr>"
  by (simp add: cancel_reservation_def cancel_reservation_locked_def eval_defs)

text \<open>
  Claim C3, amended: for a row \<open>r\<close> with \<open>total = available + reserved\<close> and all three
  counters non-negative, the row that Reserve (of a valid request), Confirm or UpdateStock
  leaves committed satisfies the same; the row that Consume or Cancel leaves committed,
  and the row the session holds after Expire, satisfies \<open>total = available + reserved\<close>,
  and its counters are non-negative provided the quantity \<open>q\<close> of a reservation on this
  row is within \<open>0 \<le> q \<le> reserved_quantity r\<close>.
\<close>

theorem engine_preserves_counters:
  assumes "inventory w k = Some r" and "counters_valid r"
  shows "(ReservationRequest_valid request \<longrightarrow>
            (\<forall>r'. inventory (snd (reserve_stock e request w)) k = Some r' \<longrightarrow> counters_valid r'))
       \<and> (\<forall>r'. inventory (snd (confirm_reservation e rid w)) k = Some r' \<longrightarrow> counters_valid r')
       \<and> (\<forall>r'. inventory (snd (update_stock e su w)) k = Some r' \<longrightarrow> counters_valid r')
       \<and> (\<forall>r'. inventory (snd (consume_reservation e rid w)) k = Some r' \<longrightarrow>
              total_quantity r' = available_quantity r' + reserved_quantity r'
              \<and> ((\<forall>res. reservations w rid = Some res \<and> k = (product_id res, store_id res) \<longrightarrow>
                      0 \<le> quantity res \<and> quantity res \<le> reserved_quantity r)
                   \<longrightarrow> counters_valid r'))
       \<and> (\<forall>r'. inventory (snd (cancel_reservation e rid w)) k = Some r' \<longrightarrow>
              total_quantity r' = available_quantity r' + reserved_quantity r'
              \<and> ((\<forall>res. reservations w rid = Some res \<and> k = (product_id res, store_id res) \<longrightarrow>
                      0 \<le> quantity res \<and> quantity res \<le> reserved_quantity r)
                   \<longrightarrow> counters_valid r'))
       \<and> (\<forall>r'. inventory (snd (expire_reservation e rid w)) k = Some r' \<longrightarrow>
              total_quantity r' = available_quantity r' + reserved_quantity r'
              \<and> ((\<forall>res. reservations w rid = Some res \<and> k = (product_id res, store_id res) \<longrightarrow>
                      0 \<le> quantity res \<and> quantity res \<le> reserved_quantity r)
                   \<longrightarrow> counters_valid r'))"
proof -
  have eq: "total_quantity r = available_quantity r + reserved_quantity r"
    using assms(2) by (simp add: counters_valid_def)
  have reserve: "ReservationRequest_valid request \<longrightarrow>
            (\<forall>r'. inventory (snd (reserve_stock e request w)) k = Some r' \<longrightarrow> counters_valid r')"
    using reserve_stock_row [OF assms(1), of e request] assms(2)
    by (auto simp: ReservationRequest_valid_def reserve_values_valid)
  have confirm: "\<forall>r'. inventory (snd (confirm_reservation e rid w)) k = Some r' \<longrightarrow> counters_valid r'"
    using assms by (simp add: confirm_reservation_inventory)
  have stock: "\<forall>r'. inventory (snd (update_stock e su w)) k = Some r' \<longrightarrow> counters_valid r'"
    using update_stock_row [OF assms(1), of e su] assms(2)
    by (auto simp: stock_values_valid)
  have consume: "\<forall>r'. inventory (snd (consume_reservation e rid w)) k = Some r' \<longrightarrow>
              total_quantity r' = available_quantity r' + reserved_quantity r'
              \<and> ((\<forall>res. reservations w rid = Some res \<and> k = (product_id res, store_id res) \<longrightarrow>
                      0 \<le> quantity res \<and> quantity res \<le> reserved_quantity r)
                   \<longrightarrow> counters_valid r')"
    using consume_reservation_row [OF assms(1), of e rid] assms(2) eq
    by (auto simp: values_keep_equation release_values_valid)
  have cancel: "\<forall>r'. inventory (snd (cancel_reservation e rid w)) k = Some r' \<longrightarrow>
              total_quantity r' = available_quantity r' + reserved_quantity r'
              \<and> ((\<forall>res. reservations w rid = Some res \<and> k = (product_id res, store_id res) \<longrightarrow>
                      0 \<le> quantity res \<and> quantity res \<le> reserved_quantity r)
                   \<longrightarrow> counters_valid r')"
    using cancel_reservation_row [OF assms(1), of e rid] assms(2) eq
    by (auto simp: values_keep_equation release_values_valid)
  have expire: "\<forall>r'. inventory (snd (expire_reservation e rid w)) k = Some r' \<longrightarrow>
              total_quantity r' = available_quantity r' + reserved_quantity r'
              \<and> ((\<forall>res. reservations w rid = Some res \<and> k = (product_id res, store_id res) \<longrightarrow>
                      0 \<le> quantity res \<and> quantity res \<le> reserved_quantity r)
                   \<longrightarrow> counters_valid r')"
    using expire_reservation_row [OF assms(1), of e rid] assms(2) eq
    by (auto simp: values_keep_equation release_values_valid)
  from reserve confirm stock consume cancel expire show ?thesis by blast
qed

text \<open>
  Claim C3, an instance: the cancellation of a PENDING reservation of 2 units on the row
  \<open>(3, 2, 5, version 2)\<close> commits \<open>(5, 0, 5, version 3)\<close>, whose counters are valid.
\<close>

theorem engine_preserves_counters_witness:
  "counters_valid
     (the (inventory
        (snd (cancel_reservation \<lparr>now = 200, redis_up = True, bus_up = True, new_uuid = ''X'',
      db_now = 200\<rparr> ''R''
           \<lparr>inventory = [(''P'', ''S'') \<mapsto>
              \<lparr>inv_id = ''I'', available_quantity = 3, reserved_quantity = 2, total_quantity = 5,
               version = 2, last_updated = 100\<rparr>],
            reservations = [''R'' \<mapsto>
              \<lparr>order_id = ''ORDER-1'', product_id = ''P'', store_id = ''S'', quantity = 2,
               status = PENDING, expires_at = 1000, created_at = 100, confirmed_at = None,
               cancelled_at = None\<rparr>],
            locks = {}, bus = []\<rparr>))
        (''P'', ''S'')))
   \<and> inventory
        (snd (cancel_reservation \<lparr>now = 200, redis_up = True, bus_up = True, new_uuid = ''X'',
      db_now = 200\<rparr> ''R''
           \<lparr>inventory = [(''P'', ''S'') \<mapsto>
              \<lparr>inv_id = ''I'', available_quantity = 3, reserved_quantity = 2, total_quantity = 5,
               version = 2, last_updated = 100\<rparr>],
            reservations = [''R'' \<mapsto>
              \<lparr>order_id = ''ORDER-1'', product_id = ''P'', store_id = ''S'', quantity = 2,
               status = PENDING, expires_at = 1000, created_at = 100, confirmed_at = None,
               cancelled_at = None\<rparr>],
            locks = {}, bus = []\<rparr>))
        (''P'', ''S'')
      = Some \<lparr>inv_id = ''I'', available_quantity = 5, reserved_quantity = 0, total_quantity = 5,
              version = 3, last_updated = 200\<rparr>"
proof -
  let ?e = "\<lparr>now = 200, redis_up = True, bus_up = True, new_uuid = ''X'',
      db_now = 200\<rparr>"
  let ?r = "\<lparr>inv_id = ''I'', available_quantity = 3, reserved_quantity = 2, total_quantity = 5,
             version = 2, last_updated = 100\<rparr>"
  let ?w = "\<lparr>inventory = [(''P'', ''S'') \<mapsto> ?r],
            reservations = [''R'' \<mapsto>
              \<lparr>order_id = ''ORDER-1'', product_id = ''P'', store_id = ''S'', quantity = 2,
               status = PENDING, expires_at = 1000, created_at = 100, confirmed_at = None,
               cancelled_at = None\<rparr>],
            locks = {}, bus = []\<rparr>"
  have h1: "inventory ?w (''P'', ''S'') = Some ?r" by simp
  have h2: "counters_valid ?r" by (simp add: counters_valid_def)
  have row: "inventory (snd (cancel_reservation ?e ''R'' ?w)) (''P'', ''S'')
      = Some \<lparr>inv_id = ''I'', available_quantity = 5, reserved_quantity = 0, total_quantity = 5,
              version = 3, last_updated = 200\<rparr>"
    by (simp add: cancel_reservation_def cancel_reservation_locked_def eval_defs)
  have hold: "\<forall>res. reservations ?w ''R'' = Some res \<and> (''P'', ''S'') = (product_id res, store_id res)
                 \<longrightarrow> 0 \<le> quantity res \<and> quantity res \<le> reserved_quantity ?r"
    by simp
  from engine_preserves_counters [OF h1 h2, where e = "?e" and rid = "''R''"] row hold
  show ?thesis by simp
qed

section \<open>Cancel\<close>




section \<open>Consume and the lock\<close>

text \<open>
  Claim C5: every Consume of a CONFIRMED reservation should acquire the (product, store)
  lock before it loads the inventory and applies its version-guarded update, so that it
  is serialised with the other stock-mutating operations on the key.

  \<^verbatim>\<open>consume_reservation\<close> never calls the lock manager. Evaluated while another
  holder has \<^verbatim>\<open>inventory_lock:P:S\<close>: Consume succeeds and commits
  \<open>(2, 3, 5, version 2)\<close> to \<open>(2, 0, 2, version 3)\<close>, and the lock is as it was; Reserve
  in the same state is turned away with \<^verbatim>\<open>DistributedLockFailedError\<close>.
\<close>

theorem consume_reservation_ignores_lock:
  "consume_reservation \<lparr>now = 300, redis_up = True, bus_up = True, new_uuid = ''X'',
      db_now = 300\<rparr> ''R''
     \<lparr>inventory = [(''P'', ''S'') \<mapsto>
        \<lparr>inv_id = ''I'', available_quantity = 2, reserved_quantity = 3, total_quantity = 5,
         version = 2, last_updated = 100\<rparr>],
      reservations = [''R'' \<mapsto>
        \<lparr>order_id = ''ORDER-1'', product_id = ''P'', store_id = ''S'', quantity = 3,
         status = CONFIRMED, expires_at = 1000, created_at = 100, confirmed_at = Some 200,
         cancelled_at = None\<rparr>],
      locks = {''inventory_lock:P:S''}, bus = []\<rparr>
   = (Inr True,
     \<lparr>inventory = [(''P'', ''S'') \<mapsto>
        \<lparr>inv_id = ''I'', available_quantity = 2, reserved_quantity = 0, total_quantity = 2,
         version = 3, last_updated = 300\<rparr>],
      reservations = [''R'' \<mapsto>
        \<lparr>order_id = ''ORDER-1'', product_id = ''P'', store_id = ''S'', quantity = 3,
         status = CONSUMED, expires_at = 1000, created_at = 100, confirmed_at = Some 200,
         cancelled_at = None\<rparr>],
      locks = {''inventory_lock:P:S''},
      bus = [(''inventory_events'',
              \<lparr>event_type = ''reservation_consumed'',
               payload = [(''reservation_id'', PStr ''R''), (''order_id'', PStr ''ORDER-1''),
                          (''product_id'', PStr ''P''), (''store_id'', PStr ''S''),
                          (''quantity'', PInt 3)],
               timestamp = 300, source = ''inventory_service'', msg_version = ''1.0''\<rparr>)]\<rparr>)
   \<and> fst (reserve_stock \<lparr>now = 300, redis_up = True, bus_up = True, new_uuid = ''X'',
      db_now = 300\<rparr>
        \<lparr>req_order_id = ''ORDER-2'', req_product_id = ''P'', req_store_id = ''S'',
         req_quantity = 1, ttl_minutes = 15\<rparr>
        \<lparr>inventory = [(''P'', ''S'') \<mapsto>
           \<lparr>inv_id = ''I'', available_quantity = 2, reserved_quantity = 3, total_quantity = 5,
            version = 2, last_updated = 100\<rparr>],
         reservations = [''R'' \<mapsto>
           \<lparr>order_id = ''ORDER-1'', product_id = ''P'', store_id = ''S'', quantity = 3,
            status = CONFIRMED, expires_at = 1000, created_at = 100, confirmed_at = Some 200,
            cancelled_at = None\<rparr>],
         locks = {''inventory_lock:P:S''}, bus = []\<rparr>)
      = Inl (DistributedLockFailedError ''inventory_lock:P:S'')"
  by (simp add: consume_reservation_def reserve_stock_def eval_defs)

section \<open>Confirm after expiry\<close>

text \<open>
  Claim C6: Confirm on a PENDING reservation whose \<^verbatim>\<open>expires_at\<close> is past should
  perform and commit the Expire transition (status EXPIRED, available + quantity,
  reserved - quantity), publish \<^verbatim>\<open>reservation_expired\<close> and fail with
  \<^verbatim>\<open>RESERVATION_EXPIRED\<close> (HTTP 409).

  \<^verbatim>\<open>_expire_reservation\<close> ends in a call of \<^verbatim>\<open>self._publish_event\<close>, which the
  class does not define, and nothing commits what it wrote. Evaluated on a reservation of
  2 units that expired at 60, confirmed at 120, against the row \<open>(3, 2, 5, version 2)\<close>:
  the caller gets \<^verbatim>\<open>AttributeError\<close>, which \<^verbatim>\<open>handle_service_exception\<close> turns into
  500; the reservation is still PENDING, the row is still \<open>(3, 2, 5, version 2)\<close> and no
  event was delivered.
\<close>

theorem confirm_expired_raises_attribute_error:
  "confirm_reservation \<lparr>now = 120, redis_up = True, bus_up = True, new_uuid = ''X'',
      db_now = 120\<rparr> ''R''
     \<lparr>inventory = [(''P'', ''S'') \<mapsto>
        \<lparr>inv_id = ''I'', available_quantity = 3, reserved_quantity = 2, total_quantity = 5,
         version = 2, last_updated = 0\<rparr>],
      reservations = [''R'' \<mapsto>
        \<lparr>order_id = ''ORDER-1'', product_id = ''P'', store_id = ''S'', quantity = 2,
         status = PENDING, expires_at = 60, created_at = 0, confirmed_at = None,
         cancelled_at = None\<rparr>],
      locks = {}, bus = []\<rparr>
   = (Inl (AttributeError ''_publish_event''),
     \<lparr>inventory = [(''P'', ''S'') \<mapsto>
        \<lparr>inv_id = ''I'', available_quantity = 3, reserved_quantity = 2, total_quantity = 5,
         version = 2, last_updated = 0\<rparr>],
      reservations = [''R'' \<mapsto>
        \<lparr>order_id = ''ORDER-1'', product_id = ''P'', store_id = ''S'', quantity = 2,
         status = PENDING, expires_at = 60, created_at = 0, confirmed_at = None,
         cancelled_at = None\<rparr>],
      locks = {}, bus = []\<rparr>)
   \<and> handle_service_exception (AttributeError ''_publish_event'') = 500"
  by (simp add: confirm_reservation_def expire_reservation_def eval_defs
        handle_service_exception_def status_code_def RESP_INTERNAL_SERVER_ERROR_def)

section \<open>Reserve, then Cancel\<close>

text \<open>
  Claim C7: for every inventory row and every quantity, a successful Reserve followed by
  a successful Cancel of that reservation, with nothing written in between, returns
  \<^verbatim>\<open>available_quantity\<close>, \<^verbatim>\<open>reserved_quantity\<close> and \<^verbatim>\<open>total_quantity\<close> to their
  values before the Reserve; \<^verbatim>\<open>version\<close> is greater by exactly 2 and
  \<^verbatim>\<open>last_updated\<close> is the time of the Cancel. Nothing else of the row changes.
\<close>

theorem reserve_then_cancel_restores:
  assumes "inventory w (req_product_id request, req_store_id request) = Some r"
    and "reserve_stock e1 request w = (Inr resp, w1)"
    and "cancel_reservation e2 (reservation_id resp) w1 = (Inr True, w2)"
  shows "inventory w2 (req_product_id request, req_store_id request)
           = Some (r\<lparr>version := version r + 2, last_updated := now e2\<rparr>)"
proof -
  let ?k = "(req_product_id request, req_store_id request)"
  note created = reserve_stock_success [OF assms(2) assms(1)]
  have "inventory w2 ?k
          = Some (cancel_values (req_quantity request) (now e2)
                    (reserve_values (req_quantity request) (now e1) r))"
    using cancel_reservation_success [OF assms(3) [unfolded created(1)] created(3)] created(2)
    by simp
  then show ?thesis
    by (simp add: cancel_after_reserve_values)
qed

text \<open>
  Claim C7, an instance: on the row \<open>(5, 0, 5, version 1)\<close>, Reserve of 2 units at time
  100 and Cancel at time 200 leave \<open>(5, 0, 5, version 3)\<close> with \<^verbatim>\<open>last_updated\<close> 200.
\<close>

theorem reserve_then_cancel_restores_witness:
  "inventory
     (snd (cancel_reservation \<lparr>now = 200, redis_up = True, bus_up = True, new_uuid = ''X'',
      db_now = 200\<rparr> ''R''
        (snd (reserve_stock \<lparr>now = 100, redis_up = True, bus_up = True, new_uuid = ''R'',
      db_now = 100\<rparr>
           \<lparr>req_order_id = ''ORDER-1'', req_product_id = ''P'', req_store_id = ''S'',
            req_quantity = 2, ttl_minutes = 15\<rparr>
           \<lparr>inventory = [(''P'', ''S'') \<mapsto>
              \<lparr>inv_id = ''I'', available_quantity = 5, reserved_quantity = 0,
               total_quantity = 5, version = 1, last_updated = 0\<rparr>],
            reservations = Map.empty, locks = {}, bus = []\<rparr>))))
     (''P'', ''S'')
   = Some \<lparr>inv_id = ''I'', available_quantity = 5, reserved_quantity = 0, total_quantity = 5,
           version = 3, last_updated = 200\<rparr>"
proof -
  let ?e1 = "\<lparr>now = 100, redis_up = True, bus_up = True, new_uuid = ''R'',
      db_now = 100\<rparr>"
  let ?e2 = "\<lparr>now = 200, redis_up = True, bus_up = True, new_uuid = ''X'',
      db_now = 200\<rparr>"
  let ?rq = "\<lparr>req_order_id = ''ORDER-1'', req_product_id = ''P'', req_store_id = ''S'',
              req_quantity = 2, ttl_minutes = 15\<rparr>"
  let ?r = "\<lparr>inv_id = ''I'', available_quantity = 5, reserved_quantity = 0,
             total_quantity = 5, version = 1, last_updated = 0\<rparr>"
  let ?w = "\<lparr>inventory = [(''P'', ''S'') \<mapsto> ?r],
             reservations = Map.empty, locks = {}, bus = []\<rparr>"
  let ?resp = "\<lparr>reservation_id = ''R'', resp_status = PENDING, resp_expires_at = 1000,
                message = ''Stock reserved successfully''\<rparr>"
  let ?w1 = "snd (reserve_stock ?e1 ?rq ?w)"
  let ?w2 = "snd (cancel_reservation ?e2 ''R'' ?w1)"
  have h1: "inventory ?w (req_product_id ?rq, req_store_id ?rq) = Some ?r"
    by simp
  have h2: "reserve_stock ?e1 ?rq ?w = (Inr ?resp, ?w1)"
    by (simp add: prod_eq_iff reserve_stock_def reserve_stock_locked_def eval_defs)
  have h3: "cancel_reservation ?e2 (reservation_id ?resp) ?w1 = (Inr True, ?w2)"
    by (simp add: prod_eq_iff cancel_reservation_def cancel_reservation_locked_def
          reserve_stock_def reserve_stock_locked_def eval_defs)
  show ?thesis
    using reserve_then_cancel_restores [OF h1 h2 h3] by simp
qed

section \<open>Confirm on a reservation in the wrong status\<close>

text \<open>
  Claim C8, as stated, fails: a request rejected because the reservation is in the wrong
  status, in particular Confirm on a reservation that is not PENDING, should carry HTTP
  status 409. \<^verbatim>\<open>InvalidReservationStatusError\<close> derives from \<^verbatim>\<open>BusinessError\<close>,
  whose status is \<^verbatim>\<open>RESP_BAD_REQUEST\<close>: Confirm on a CONFIRMED reservation raises an
  exception that \<^verbatim>\<open>handle_service_exception\<close> translates to 400.
\<close>

theorem confirm_wrong_status_is_400:
  "confirm_reservation \<lparr>now = 200, redis_up = True, bus_up = True, new_uuid = ''X'',
      db_now = 200\<rparr> ''R''
       \<lparr>inventory = [(''P'', ''S'') \<mapsto>
          \<lparr>inv_id = ''I'', available_quantity = 3, reserved_quantity = 2, total_quantity = 5,
           version = 2, last_updated = 100\<rparr>],
        reservations = [''R'' \<mapsto>
          \<lparr>order_id = ''ORDER-1'', product_id = ''P'', store_id = ''S'', quantity = 2,
           status = CONFIRMED, expires_at = 1000, created_at = 100, confirmed_at = Some 150,
           cancelled_at = None\<rparr>],
        locks = {}, bus = []\<rparr>
     = (Inl (InvalidReservationStatusError ''R'' CONFIRMED PENDING),
       \<lparr>inventory = [(''P'', ''S'') \<mapsto>
          \<lparr>inv_id = ''I'', available_quantity = 3, reserved_quantity = 2, total_quantity = 5,
           version = 2, last_updated = 100\<rparr>],
        reservations = [''R'' \<mapsto>
          \<lparr>order_id = ''ORDER-1'', product_id = ''P'', store_id = ''S'', quantity = 2,
           status = CONFIRMED, expires_at = 1000, created_at = 100, confirmed_at = Some 150,
           cancelled_at = None\<rparr>],
        locks = {}, bus = []\<rparr>)
   \<and> handle_service_exception (InvalidReservationStatusError ''R'' CONFIRMED PENDING) = 400
   \<and> handle_service_exception (InvalidReservationStatusError ''R'' CONFIRMED PENDING) \<noteq> 409"
  by (simp add: confirm_reservation_def handle_service_exception_def status_code_def
        RESP_BAD_REQUEST_def)

text \<open>
  Claim C8, amended: Confirm on a reservation whose status is not PENDING changes nothing
  and fails with \<^verbatim>\<open>InvalidReservationStatusError\<close>, a business error with code
  \<^verbatim>\<open>INVALID_RESERVATION_STATUS\<close> whose HTTP status is \<^verbatim>\<open>RESP_BAD_REQUEST\<close>;
  \<^verbatim>\<open>handle_service_exception\<close> translates it to 400.
\<close>

theorem confirm_wrong_status_is_business_error:
  assumes "reservations w rid = Some res" and "status res \<noteq> PENDING"
  shows "confirm_reservation e rid w
           = (Inl (InvalidReservationStatusError rid (status res) PENDING), w)
       \<and> exn_error_type (InvalidReservationStatusError rid (status res) PENDING)
            = Some BUSINESS_ERROR
       \<and> exn_error_code (InvalidReservationStatusError rid (status res) PENDING)
            = Some INVALID_RESERVATION_STATUS
       \<and> status_code (InvalidReservationStatusError rid (status res) PENDING)
            = Some RESP_BAD_REQUEST
       \<and> handle_service_exception (InvalidReservationStatusError rid (status res) PENDING)
            = 400"
  using assms
  by (simp add: confirm_reservation_def handle_service_exception_def status_code_def
        RESP_BAD_REQUEST_def)

text \<open>Claim C8, an instance: Confirm on a CANCELLED reservation.\<close>

theorem confirm_wrong_status_is_business_error_witness:
  "fst (confirm_reservation \<lparr>now = 200, redis_up = True, bus_up = True, new_uuid = ''X'',
      db_now = 200\<rparr> ''R''
          \<lparr>inventory = Map.empty,
           reservations = [''R'' \<mapsto>
             \<lparr>order_id = ''ORDER-1'', product_id = ''P'', store_id = ''S'', quantity = 2,
              status = CANCELLED, expires_at = 1000, created_at = 100, confirmed_at = None,
              cancelled_at = Some 150\<rparr>],
           locks = {}, bus = []\<rparr>)
     = Inl (InvalidReservationStatusError ''R'' CANCELLED PENDING)
   \<and> status_code (InvalidReservationStatusError ''R'' CANCELLED PENDING) = Some RESP_BAD_REQUEST"
proof -
  let ?e = "\<lparr>now = 200, redis_up = True, bus_up = True, new_uuid = ''X'',
      db_now = 200\<rparr>"
  let ?res = "\<lparr>order_id = ''ORDER-1'', product_id = ''P'', store_id = ''S'', quantity = 2,
              status = CANCELLED, expires_at = 1000, created_at = 100, confirmed_at = None,
              cancelled_at = Some 150\<rparr>"
  let ?w = "\<lparr>inventory = Map.empty, reservations = [''R'' \<mapsto> ?res], locks = {}, bus = []\<rparr>"
  have h1: "reservations ?w ''R'' = Some ?res" by simp
  have h2: "status ?res \<noteq> PENDING" by simp
  from confirm_wrong_status_is_business_error [OF h1 h2, of ?e]
  show ?thesis by simp
qed

section \<open>Terminal states\<close>




section \<open>UpdateStock: the absolute write\<close>

text \<open>
  Claim C10: \<^verbatim>\<open>update_stock\<close> writes \<^verbatim>\<open>available_quantity\<close> as the absolute value
  \<^verbatim>\<open>new_available\<close> computed from the snapshot it read, and \<^verbatim>\<open>total_quantity\<close>
  relative to the row; the update is guarded by the snapshot's version. Whenever the
  conditional update affects a row, the absolute write equals the relative update
  \<open>available + delta\<close> of the specification, and \<open>total = available + reserved\<close> is
  preserved.

  First part: \<^verbatim>\<open>update_stock\<close> run on its own commits the relative update of the row
  it read. Second part: the method from its read on, holding a snapshot that other
  requests may have overtaken by committed writes; if it succeeds, what it has written
  is the relative update of the row it found. Third part: if any such write has changed
  the row, the guard turns the update away with \<^verbatim>\<open>OptimisticLockConflictError\<close> and
  nothing is written.
\<close>

theorem update_stock_absolute_write_is_relative:
  "(update_stock e su w0 = (Inr True, w1)
      \<and> inventory w0 (su_product_id su, su_store_id su) = Some r0
    \<longrightarrow> inventory w1 (su_product_id su, su_store_id su)
          = Some (relative_stock_values (quantity_change su) (now e) r0)
        \<and> total_quantity (relative_stock_values (quantity_change su) (now e) r0)
            = available_quantity (relative_stock_values (quantity_change su) (now e) r0)
              + reserved_quantity (relative_stock_values (quantity_change su) (now e) r0))
   \<and> (Inventory_valid snapshot
      \<and> committed_write\<^sup>*\<^sup>* snapshot row
      \<and> inventory w (su_product_id su, su_store_id su) = Some row
      \<and> update_stock_write e su snapshot w = (Inr True, w')
    \<longrightarrow> inventory w' (su_product_id su, su_store_id su)
          = Some (relative_stock_values (quantity_change su) (now e) row)
        \<and> total_quantity (relative_stock_values (quantity_change su) (now e) row)
            = available_quantity (relative_stock_values (quantity_change su) (now e) row)
              + reserved_quantity (relative_stock_values (quantity_change su) (now e) row))
   \<and> (committed_write\<^sup>*\<^sup>* snapshot row
      \<and> row \<noteq> snapshot
      \<and> inventory w (su_product_id su, su_store_id su) = Some row
      \<and> 0 \<le> available_quantity snapshot + quantity_change su
    \<longrightarrow> update_stock_write e su snapshot w
          = (Inl (OptimisticLockConflictError
                   (''inventory:'' @ su_product_id su @ '':'' @ su_store_id su)), w))"
proof (intro conjI impI)
  assume a: "update_stock e su w0 = (Inr True, w1)
      \<and> inventory w0 (su_product_id su, su_store_id su) = Some r0"
  note applied = update_stock_success [OF conjunct1 [OF a] conjunct2 [OF a]]
  have same: "stock_values (available_quantity r0 + quantity_change su) (quantity_change su)
                (now e) r0
              = relative_stock_values (quantity_change su) (now e) r0"
    by (simp add: stock_values_def relative_stock_values_def)
  show "inventory w1 (su_product_id su, su_store_id su)
          = Some (relative_stock_values (quantity_change su) (now e) r0)"
    using applied(2) same by simp
  show "total_quantity (relative_stock_values (quantity_change su) (now e) r0)
            = available_quantity (relative_stock_values (quantity_change su) (now e) r0)
              + reserved_quantity (relative_stock_values (quantity_change su) (now e) r0)"
    using applied(1)
    by (simp add: relative_stock_values_def Inventory_valid_def counters_valid_def)
next
  assume b: "Inventory_valid snapshot
      \<and> committed_write\<^sup>*\<^sup>* snapshot row
      \<and> inventory w (su_product_id su, su_store_id su) = Some row
      \<and> update_stock_write e su snapshot w = (Inr True, w')"
  then have valid: "Inventory_valid snapshot"
    and writes: "committed_write\<^sup>*\<^sup>* snapshot row"
    and found: "inventory w (su_product_id su, su_store_id su) = Some row"
    and run: "update_stock_write e su snapshot w = (Inr True, w')"
    by simp_all
  have "version row = version snapshot"
    using found run
    by (auto simp: update_stock_write_def execute_update_inventory_def Let_def
             split: if_splits sum.splits)
  then have same: "row = snapshot"
    using committed_writes_version [OF writes] by auto
  have written: "inventory w' (su_product_id su, su_store_id su)
          = Some (stock_values (available_quantity snapshot + quantity_change su)
                    (quantity_change su) (now e) row)"
    using found run
    by (auto simp: update_stock_write_def execute_update_inventory_def Let_def
             split: if_splits sum.splits)
  have "stock_values (available_quantity snapshot + quantity_change su) (quantity_change su)
          (now e) row
        = relative_stock_values (quantity_change su) (now e) row"
    using same by (simp add: stock_values_def relative_stock_values_def)
  then show "inventory w' (su_product_id su, su_store_id su)
          = Some (relative_stock_values (quantity_change su) (now e) row)"
    using written by simp
  show "total_quantity (relative_stock_values (quantity_change su) (now e) row)
           = available_quantity (relative_stock_values (quantity_change su) (now e) row)
             + reserved_quantity (relative_stock_values (quantity_change su) (now e) row)"
    using valid same
    by (simp add: relative_stock_values_def Inventory_valid_def counters_valid_def)
next
  assume c: "committed_write\<^sup>*\<^sup>* snapshot row
      \<and> row \<noteq> snapshot
      \<and> inventory w (su_product_id su, su_store_id su) = Some row
      \<and> 0 \<le> available_quantity snapshot + quantity_change su"
  then have "version snapshot < version row"
    using committed_writes_version [of snapshot row] by auto
  with c show "update_stock_write e su snapshot w
          = (Inl (OptimisticLockConflictError
                   (''inventory:'' @ su_product_id su @ '':'' @ su_store_id su)), w)"
    by (simp add: update_stock_write_def execute_update_inventory_def Let_def)
qed

text \<open>
  Claim C10, instances: on the row \<open>(10, 2, 12, version 4)\<close>, UpdateStock of +5 at time
  400 commits \<open>(15, 2, 17, version 5)\<close>; holding that row as its snapshot while a Reserve
  of 3 has committed \<open>(7, 5, 12, version 5)\<close>, it is turned away and the row stays.
\<close>

theorem update_stock_absolute_write_is_relative_witness:
  "inventory
     (snd (update_stock \<lparr>now = 400, redis_up = True, bus_up = True, new_uuid = ''X'',
             db_now = 400\<rparr>
        \<lparr>su_product_id = ''P'', su_store_id = ''S'', quantity_change = 5,
         reason = ''stock-in'', reference_id = None\<rparr>
        \<lparr>inventory = [(''P'', ''S'') \<mapsto>
           \<lparr>inv_id = ''I'', available_quantity = 10, reserved_quantity = 2,
            total_quantity = 12, version = 4, last_updated = 0\<rparr>],
         reservations = Map.empty, locks = {}, bus = []\<rparr>))
     (''P'', ''S'')
   = Some \<lparr>inv_id = ''I'', available_quantity = 15, reserved_quantity = 2, total_quantity = 17,
           version = 5, last_updated = 400\<rparr>
   \<and> update_stock_write \<lparr>now = 400, redis_up = True, bus_up = True, new_uuid = ''X'',
         db_now = 400\<rparr>
        \<lparr>su_product_id = ''P'', su_store_id = ''S'', quantity_change = 5,
         reason = ''stock-in'', reference_id = None\<rparr>
        \<lparr>inv_id = ''I'', available_quantity = 10, reserved_quantity = 2,
         total_quantity = 12, version = 4, last_updated = 0\<rparr>
        \<lparr>inventory = [(''P'', ''S'') \<mapsto>
           \<lparr>inv_id = ''I'', available_quantity = 7, reserved_quantity = 5,
            total_quantity = 12, version = 5, last_updated = 350\<rparr>],
         reservations = Map.empty, locks = {''inventory_lock:P:S''}, bus = []\<rparr>
     = (Inl (OptimisticLockConflictError ''inventory:P:S''),
        \<lparr>inventory = [(''P'', ''S'') \<mapsto>
           \<lparr>inv_id = ''I'', available_quantity = 7, reserved_quantity = 5,
            total_quantity = 12, version = 5, last_updated = 350\<rparr>],
         reservations = Map.empty, locks = {''inventory_lock:P:S''}, bus = []\<rparr>)"
proof -
  let ?e = "\<lparr>now = 400, redis_up = True, bus_up = True, new_uuid = ''X'', db_now = 400\<rparr>"
  let ?su = "\<lparr>su_product_id = ''P'', su_store_id = ''S'', quantity_change = 5,
              reason = ''stock-in'', reference_id = None\<rparr>"
  let ?r = "\<lparr>inv_id = ''I'', available_quantity = 10, reserved_quantity = 2,
             total_quantity = 12, version = 4, last_updated = 0\<rparr>"
  let ?r' = "\<lparr>inv_id = ''I'', available_quantity = 7, reserved_quantity = 5,
             total_quantity = 12, version = 5, last_updated = 350\<rparr>"
  let ?w = "\<lparr>inventory = [(''P'', ''S'') \<mapsto> ?r],
             reservations = Map.empty, locks = {}, bus = []\<rparr>"
  let ?wl = "\<lparr>inventory = [(''P'', ''S'') \<mapsto> ?r],
             reservations = Map.empty, locks = {''inventory_lock:P:S''}, bus = []\<rparr>"
  let ?wr = "\<lparr>inventory = [(''P'', ''S'') \<mapsto> ?r'],
             reservations = Map.empty, locks = {''inventory_lock:P:S''}, bus = []\<rparr>"
  have h1: "update_stock ?e ?su ?w = (Inr True, snd (update_stock ?e ?su ?w))"
    by (simp add: prod_eq_iff update_stock_def update_stock_locked_def update_stock_write_def
          eval_defs)
  have h2: "inventory ?w (su_product_id ?su, su_store_id ?su) = Some ?r"
    by simp
  have h3: "Inventory_valid ?r"
    by (simp add: Inventory_valid_def counters_valid_def)
  have h4: "committed_write\<^sup>*\<^sup>* ?r ?r"
    by simp
  have h5: "inventory ?wl (su_product_id ?su, su_store_id ?su) = Some ?r"
    by simp
  have h6: "update_stock_write ?e ?su ?r ?wl = (Inr True, snd (update_stock_write ?e ?su ?r ?wl))"
    by (simp add: prod_eq_iff update_stock_write_def eval_defs)
  have "?r' = reserve_values 3 350 ?r"
    by (simp add: reserve_values_def)
  then have h7: "committed_write\<^sup>*\<^sup>* ?r ?r'"
    using by_reserve [of ?r 3 350] by auto
  have h8: "?r' \<noteq> ?r"
    by simp
  have h9: "inventory ?wr (su_product_id ?su, su_store_id ?su) = Some ?r'"
    by simp
  have h10: "0 \<le> available_quantity ?r + quantity_change ?su"
    by simp
  note sequential_and_guarded =
    update_stock_absolute_write_is_relative
      [where e = ?e and su = ?su and ?w0.0 = ?w and ?w1.0 = "snd (update_stock ?e ?su ?w)"
         and ?r0.0 = ?r and snapshot = ?r and row = ?r and w = ?wl
         and w' = "snd (update_stock_write ?e ?su ?r ?wl)"]
  note refused =
    update_stock_absolute_write_is_relative
      [where e = ?e and su = ?su and snapshot = ?r and row = ?r' and w = ?wr]
  from sequential_and_guarded refused h1 h2 h3 h4 h5 h6 h7 h8 h9 h10
  show ?thesis
    by (simp add: relative_stock_values_def)
qed

end
